theory Spec2Isabelle
  imports Main
begin

section \<open>Batch drivers for FSL FEAT: a shallow embedding\<close>

text \<open>
  The repository holds four Python scripts that drive an external tool (\<^verbatim>\<open>feat\<close>) over the
  runs named in a manifest. \<^verbatim>\<open>P6/batchFEAT_main.py\<close> rewrites fixed-format lines of a
  template with \<^verbatim>\<open>re.sub\<close>; \<^verbatim>\<open>P8/batchGLM1.py\<close> (and its two siblings, which differ
  only in file names and parameter keys) fills named placeholders with \<^verbatim>\<open>str.format\<close>.

  The process state the scripts act on is modelled as a record: the current working
  directory, the file system as a map from path to contents, and the list of effects
  performed so far. Exceptions are values; a raised exception carries the state at the
  moment it was raised, because several properties are about what has (not) happened when
  the batch aborts. Calls to \<^verbatim>\<open>logger\<close> write messages only and are left out.
\<close>

subsection \<open>Characters\<close>

abbreviation nl :: char where "nl \<equiv> CHR 0x0A"
abbreviation dq :: char where "dq \<equiv> CHR 0x22"
abbreviation sq :: char where "sq \<equiv> CHR 0x27"
abbreviation bs :: char where "bs \<equiv> CHR 0x5C"
abbreviation sep :: char where "sep \<equiv> CHR ''/''"

subsection \<open>Exceptions, process results, state\<close>

text \<open>\<^verbatim>\<open>subprocess.CompletedProcess\<close>: \<open>stdout\<close> is \<open>None\<close> unless output was captured.\<close>

record completed_process =
  args :: "string list"
  returncode :: int
  stdout :: "string option"

text \<open>
  \<open>RuntimeError p\<close> stands for
  \<^verbatim>\<open>RuntimeError("Received non-zero return code: {}".format(process_results))\<close>: the message
  is the rendering of the process result \<open>p\<close>, which shows its arguments, its return code
  and its captured output.
\<close>

datatype error =
  RuntimeError completed_process
  | ValueError string
  | TypeError string
  | KeyError string
  | IndexError string
  | AttributeError string
  | OSError string
  | ReError string

datatype event =
  ERead string
  | EWrite string string
  | ECopy string string
  | EMakedirs string
  | EOpenLog string
  | EChdir string
  | ERun "string list" bool int

record world =
  cwd :: string
  files :: "string \<rightharpoonup> string"
  trace :: "event list"

datatype 'a res = Raised error world | Done 'a world

text \<open>
  A Python float is kept abstract: a dyadic rational or one of the special values. Parsing
  and formatting floats belong to the environment.
\<close>

datatype pyfloat = Finite int int | PosInf | NegInf | NaN

text \<open>The values a parameter set holds: paths and the volume count.\<close>

datatype pyval = PStr string | PInt int

text \<open>
  The exceptions rendering a value through a replacement field can raise: a bad format
  specification or conversion, a missing attribute, a bad index, a key missing in a nested
  field.
\<close>

datatype field_error =
  FieldValueError string
  | FieldTypeError string
  | FieldAttributeError string
  | FieldIndexError string
  | FieldKeyError string

fun error_of_field :: "field_error \<Rightarrow> error" where
  "error_of_field (FieldValueError m) = ValueError m"
| "error_of_field (FieldTypeError m) = TypeError m"
| "error_of_field (FieldAttributeError m) = AttributeError m"
| "error_of_field (FieldIndexError m) = IndexError m"
| "error_of_field (FieldKeyError m) = KeyError m"

text \<open>
  Everything outside the scripts is a parameter:
  \<^item> \<open>subprocess_run\<close>: what \<^verbatim>\<open>subprocess.run(sargs)\<close> does in a given state. Spawning may
    fail (\<open>Inl\<close>, the message of the \<^verbatim>\<open>OSError\<close>); otherwise the child returns an exit status and its standard output and
    may have changed files. The flag says whether standard output is captured.
  \<^item> \<open>os_error\<close>: whether the operating system refuses a file-system operation (the
    message of the \<^verbatim>\<open>OSError\<close>).
  \<^item> \<open>abspath\<close>, \<open>expanduser\<close>: \<^verbatim>\<open>os.path.abspath\<close> (given the current directory) and
    \<^verbatim>\<open>os.path.expanduser\<close>.
  \<^item> \<open>py_float\<close>, \<open>format_6f\<close>: \<^verbatim>\<open>float(bytes)\<close> (\<open>Inl\<close> is the message of the
    \<^verbatim>\<open>ValueError\<close>) and \<^verbatim>\<open>"{:.6f}".format(x)\<close>.
  \<^item> \<open>format_field\<close>: how \<^verbatim>\<open>str.format\<close> renders a value through a replacement field that
    has an attribute or index part, a conversion or a format specification (the value, the
    rest of the field name, the conversion, the specification, and the parameters, which a
    nested specification may use).
\<close>

record env =
  subprocess_run :: "world \<Rightarrow> string list \<Rightarrow> bool \<Rightarrow> string + (int \<times> string \<times> (string \<rightharpoonup> string))"
  os_error :: "world \<Rightarrow> event \<Rightarrow> string option"
  abspath :: "string \<Rightarrow> string \<Rightarrow> string"
  expanduser :: "string \<Rightarrow> string"
  py_float :: "string \<Rightarrow> string + pyfloat"
  format_6f :: "pyfloat \<Rightarrow> string"
  format_field :: "pyval \<Rightarrow> string \<Rightarrow> char option \<Rightarrow> string \<Rightarrow> (string \<rightharpoonup> pyval) \<Rightarrow> field_error + string"

definition record_event :: "event \<Rightarrow> world \<Rightarrow> world" where
  "record_event ev w = w\<lparr>trace := trace w @ [ev]\<rparr>"

subsection \<open>\<^verbatim>\<open>shlex.split\<close>\<close>

text \<open>
  \<^verbatim>\<open>shlex.split(s)\<close> reads tokens in POSIX mode with \<^verbatim>\<open>whitespace_split\<close> set and no comment
  characters. The reader is a state machine over the characters; its states are: between
  tokens, inside a word, inside quotes, after a backslash (remembering the state to return
  to). The flag says whether the current token had a quoted part, so that \<^verbatim>\<open>''\<close> yields an
  empty token. An unclosed quotation and a trailing backslash raise \<^verbatim>\<open>ValueError\<close>
  (\<open>Inl\<close> with its message).
\<close>

datatype lex_state = Between | InWord | InQuote char | Escaped "char option"

definition is_shlex_ws :: "char \<Rightarrow> bool" where
  "is_shlex_ws c \<longleftrightarrow> c = CHR '' '' \<or> c = CHR 0x09 \<or> c = CHR 0x0D \<or> c = nl"

fun read_tokens :: "lex_state \<Rightarrow> string \<Rightarrow> string \<Rightarrow> string + string list" where
  "read_tokens Between tok [] = Inr []"
| "read_tokens InWord tok [] = Inr [tok]"
| "read_tokens (InQuote q) tok [] = Inl ''No closing quotation''"
| "read_tokens (Escaped r) tok [] = Inl ''No escaped character''"
| "read_tokens Between tok (c # cs) =
     (if is_shlex_ws c then read_tokens Between [] cs
      else if c = bs then read_tokens (Escaped None) [] cs
      else if c = sq \<or> c = dq then read_tokens (InQuote c) [] cs
      else read_tokens InWord [c] cs)"
| "read_tokens InWord tok (c # cs) =
     (if is_shlex_ws c then
        (case read_tokens Between [] cs of Inl e \<Rightarrow> Inl e | Inr ts \<Rightarrow> Inr (tok # ts))
      else if c = sq \<or> c = dq then read_tokens (InQuote c) tok cs
      else if c = bs then read_tokens (Escaped None) tok cs
      else read_tokens InWord (tok @ [c]) cs)"
| "read_tokens (InQuote q) tok (c # cs) =
     (if c = q then read_tokens InWord tok cs
      else if c = bs \<and> q = dq then read_tokens (Escaped (Some q)) tok cs
      else read_tokens (InQuote q) (tok @ [c]) cs)"
| "read_tokens (Escaped None) tok (c # cs) = read_tokens InWord (tok @ [c]) cs"
| "read_tokens (Escaped (Some q)) tok (c # cs) =
     (if c \<noteq> bs \<and> c \<noteq> q then read_tokens (InQuote q) (tok @ [bs, c]) cs
      else read_tokens (InQuote q) (tok @ [c]) cs)"

definition shlex_split :: "string \<Rightarrow> string + string list" where
  "shlex_split s = read_tokens Between [] s"

subsection \<open>\<^verbatim>\<open>run_command\<close>\<close>

text \<open>
  The same function in all four scripts (the P8 variant also logs the failure). A process
  that ran is recorded in the trace with its exit status; the files are as the child left
  them.
\<close>

definition run_command :: "env \<Rightarrow> string \<Rightarrow> bool \<Rightarrow> world \<Rightarrow> completed_process res" where
  "run_command E scommand capture_output w =
     (case shlex_split scommand of
        Inl m \<Rightarrow> Raised (ValueError m) w
      | Inr sargs \<Rightarrow>
          (case subprocess_run E w sargs capture_output of
             Inl m \<Rightarrow> Raised (OSError m) w
           | Inr (rc, out, fs) \<Rightarrow>
               (let process_results =
                      \<lparr>args = sargs, returncode = rc,
                       stdout = (if capture_output then Some out else None)\<rparr>;
                    w' = record_event (ERun sargs capture_output rc) (w\<lparr>files := fs\<rparr>)
                in if rc \<noteq> 0 then Raised (RuntimeError process_results) w'
                   else Done process_results w')))"

subsection \<open>Paths and slices\<close>

text \<open>
  \<^verbatim>\<open>os.path.join\<close> (POSIX): an absolute component discards what precedes it; otherwise the
  components are joined by one separator unless the left one is empty or already ends in
  one.
\<close>

definition join :: "string \<Rightarrow> string \<Rightarrow> string" where
  "join a b =
     (if b \<noteq> [] \<and> hd b = sep then b
      else if a = [] \<or> last a = sep then a @ b
      else a @ [sep] @ b)"

definition join3 :: "string \<Rightarrow> string \<Rightarrow> string \<Rightarrow> string" where
  "join3 a b c = join (join a b) c"

text \<open>The slices \<^verbatim>\<open>s[0:2]\<close> and \<^verbatim>\<open>s[-2:]\<close>; both return the whole string when it is shorter.\<close>

definition first2 :: "string \<Rightarrow> string" where
  "first2 s = take 2 s"

definition last2 :: "string \<Rightarrow> string" where
  "last2 s = drop (length s - 2) s"

subsection \<open>Files\<close>

text \<open>
  Files are keyed by path; a relative path is taken from the current directory. Two
  spellings of one file (\<^verbatim>\<open>a//b\<close>, \<^verbatim>\<open>a/./b\<close>, links) are different keys. Each operation
  first asks the environment whether the operating system refuses it.
\<close>

definition resolve :: "world \<Rightarrow> string \<Rightarrow> string" where
  "resolve w p = join (cwd w) p"

definition read_file :: "env \<Rightarrow> string \<Rightarrow> world \<Rightarrow> string res" where
  "read_file E p w =
     (case os_error E w (ERead p) of
        Some m \<Rightarrow> Raised (OSError m) w
      | None \<Rightarrow>
          (case files w (resolve w p) of
             None \<Rightarrow> Raised (OSError ''No such file or directory'') w
           | Some c \<Rightarrow> Done c (record_event (ERead p) w)))"

definition write_file :: "env \<Rightarrow> string \<Rightarrow> string \<Rightarrow> world \<Rightarrow> unit res" where
  "write_file E p c w =
     (case os_error E w (EWrite p c) of
        Some m \<Rightarrow> Raised (OSError m) w
      | None \<Rightarrow> Done () (record_event (EWrite p c) (w\<lparr>files := (files w)(resolve w p \<mapsto> c)\<rparr>)))"

text \<open>\<^verbatim>\<open>shutil.copy(src, dst)\<close> with \<open>dst\<close> a file path.\<close>

definition copy_file :: "env \<Rightarrow> string \<Rightarrow> string \<Rightarrow> world \<Rightarrow> unit res" where
  "copy_file E src dst w =
     (case os_error E w (ECopy src dst) of
        Some m \<Rightarrow> Raised (OSError m) w
      | None \<Rightarrow>
          (case files w (resolve w src) of
             None \<Rightarrow> Raised (OSError ''No such file or directory'') w
           | Some c \<Rightarrow>
               Done () (record_event (ECopy src dst) (w\<lparr>files := (files w)(resolve w dst \<mapsto> c)\<rparr>))))"

text \<open>\<^verbatim>\<open>os.makedirs(p, exist_ok=True)\<close>: directories are not in the file map.\<close>

definition makedirs :: "env \<Rightarrow> string \<Rightarrow> world \<Rightarrow> unit res" where
  "makedirs E p w =
     (case os_error E w (EMakedirs p) of
        Some m \<Rightarrow> Raised (OSError m) w
      | None \<Rightarrow> Done () (record_event (EMakedirs p) w))"

definition chdir :: "env \<Rightarrow> string \<Rightarrow> world \<Rightarrow> unit res" where
  "chdir E p w =
     (case os_error E w (EChdir p) of
        Some m \<Rightarrow> Raised (OSError m) w
      | None \<Rightarrow> Done () (record_event (EChdir p) (w\<lparr>cwd := resolve w p\<rparr>)))"

text \<open>
  \<^verbatim>\<open>get_FileHandler(log_fname)\<close> opens the log file for appending, which creates it when it
  does not exist.
\<close>

definition get_FileHandler :: "env \<Rightarrow> string \<Rightarrow> world \<Rightarrow> unit res" where
  "get_FileHandler E log_fname w =
     (case os_error E w (EOpenLog log_fname) of
        Some m \<Rightarrow> Raised (OSError m) w
      | None \<Rightarrow>
          Done () (record_event (EOpenLog log_fname)
            (w\<lparr>files := (files w)(resolve w log_fname \<mapsto>
                 (case files w (resolve w log_fname) of None \<Rightarrow> [] | Some c \<Rightarrow> c))\<rparr>)))"

text \<open>
  Iterating over an open text file yields its lines, each with its terminator; a last line
  without terminator is yielded as it is, and an empty file yields nothing. The file is
  taken as read when it is opened.
\<close>

fun file_lines :: "string \<Rightarrow> string list" where
  "file_lines [] = []"
| "file_lines (c # cs) =
     (if c = nl then [c] # file_lines cs
      else (case file_lines cs of [] \<Rightarrow> [[c]] | l # ls \<Rightarrow> (c # l) # ls))"

subsection \<open>Run discovery (\<^verbatim>\<open>session_GLM_CLI\<close>, and the head of the P6 loop)\<close>

text \<open>
  Both drivers take \<^verbatim>\<open>inputFilename[0:2]\<close> of every line of \<^verbatim>\<open>to_process_main.txt\<close> as the
  run identifier. \<^verbatim>\<open>session_GLM_CLI\<close> collects one folder per line; \<^verbatim>\<open>session_GLM\<close> later
  takes the identifier back from the folder as \<^verbatim>\<open>runDir[-2:]\<close>.
\<close>

fun collect_folders :: "string \<Rightarrow> string list \<Rightarrow> string list \<Rightarrow> string list" where
  "collect_folders workingDir inputFolders [] = inputFolders"
| "collect_folders workingDir inputFolders (inputFilename # rest) =
     (let cur_nifii = first2 inputFilename
      in collect_folders workingDir (inputFolders @ [join workingDir (''run'' @ cur_nifii)]) rest)"

text \<open>The identifiers the P6 loop works with, in the order it meets them.\<close>

fun loop_identifiers :: "string list \<Rightarrow> string list" where
  "loop_identifiers [] = []"
| "loop_identifiers (inputFilename # rest) = first2 inputFilename # loop_identifiers rest"

text \<open>
  The reading of run discovery in the specification, for comparison: one identifier, the
  two-character prefix, for every line that is not blank.
\<close>

definition is_blank_line :: "string \<Rightarrow> bool" where
  "is_blank_line l \<longleftrightarrow> (\<forall>c \<in> set l. c = nl \<or> c = CHR '' '' \<or> c = CHR 0x09 \<or> c = CHR 0x0D)"

definition spec_run_identifiers :: "string \<Rightarrow> string list" where
  "spec_run_identifiers manifest =
     map (take 2) (filter (\<lambda>l. \<not> is_blank_line l) (file_lines manifest))"

subsection \<open>\<^verbatim>\<open>int(bytes)\<close> and \<^verbatim>\<open>str(int)\<close>\<close>

definition is_digit :: "char \<Rightarrow> bool" where
  "is_digit c \<longleftrightarrow> 48 \<le> (of_char c :: nat) \<and> (of_char c :: nat) \<le> 57"

definition digit_val :: "char \<Rightarrow> nat" where
  "digit_val c = of_char c - 48"

definition is_py_space :: "char \<Rightarrow> bool" where
  "is_py_space c \<longleftrightarrow>
     c = CHR '' '' \<or> c = CHR 0x09 \<or> c = nl \<or> c = CHR 0x0B \<or> c = CHR 0x0C \<or> c = CHR 0x0D"

definition strip :: "string \<Rightarrow> string" where
  "strip s = rev (dropWhile is_py_space (rev (dropWhile is_py_space s)))"

text \<open>
  Decimal digits, with single underscores allowed between digits. The flag says whether
  the previous character was a digit.
\<close>

fun digits_value :: "bool \<Rightarrow> nat \<Rightarrow> string \<Rightarrow> nat option" where
  "digits_value after_digit acc [] = (if after_digit then Some acc else None)"
| "digits_value after_digit acc (c # cs) =
     (if is_digit c then digits_value True (10 * acc + digit_val c) cs
      else if c = CHR ''_'' \<and> after_digit then digits_value False acc cs
      else None)"

definition py_int :: "string \<Rightarrow> string + int" where
  "py_int s =
     (case strip s of
        [] \<Rightarrow> Inl ''invalid literal for int() with base 10''
      | c # cs \<Rightarrow>
          (case digits_value False 0 (if c = CHR ''-'' \<or> c = CHR ''+'' then cs else c # cs) of
             None \<Rightarrow> Inl ''invalid literal for int() with base 10''
           | Some n \<Rightarrow> Inr (if c = CHR ''-'' then - int n else int n)))"

fun str_nat :: "nat \<Rightarrow> string" where
  "str_nat n =
     (if n < 10 then [char_of (48 + n)] else str_nat (n div 10) @ [char_of (48 + n mod 10)])"

declare str_nat.simps [simp del]

definition str_int :: "int \<Rightarrow> string" where
  "str_int i = (if i < 0 then CHR ''-'' # str_nat (nat (- i)) else str_nat (nat i))"

fun py_str :: "pyval \<Rightarrow> string" where
  "py_str (PStr s) = s"
| "py_str (PInt i) = str_int i"

subsection \<open>\<^verbatim>\<open>str.format\<close> with keyword arguments (\<^verbatim>\<open>fill_in_template\<close>)\<close>

text \<open>
  \<^verbatim>\<open>template.format(**params)\<close> walks the template from left to right. Text is copied,
  \<^verbatim>\<open>{{\<close> and \<^verbatim>\<open>}}\<close> stand for one brace, and \<^verbatim>\<open>{...}\<close> is a replacement field: a field name,
  then an optional \<^verbatim>\<open>!c\<close> conversion, then an optional \<^verbatim>\<open>:spec\<close> in which braces nest.
  Inside the field name, the text between \<^verbatim>\<open>[\<close> and \<^verbatim>\<open>]\<close> is skipped. A malformed template
  raises \<^verbatim>\<open>ValueError\<close> when the walk reaches the malformed place, so the pieces before it
  are rendered first: the walk is modelled as the list of pieces, ended by \<open>Bad\<close> at the
  first malformed place.
\<close>

record field =
  field_name :: string
  conversion :: "char option"
  format_spec :: string

datatype piece = Lit string | Fld field | Bad string

datatype fstate =
  Text
  | Name bool string
  | Conv string
  | ConvEnd string char
  | Spec nat string "char option" string

fun markup :: "fstate \<Rightarrow> string \<Rightarrow> piece list" where
  "markup Text [] = []"
| "markup Text (c # cs) =
     (if c = CHR ''{'' then
        (case cs of
           [] \<Rightarrow> [Bad ''Single { encountered in format string'']
         | d # ds \<Rightarrow> if d = CHR ''{'' then Lit [c] # markup Text ds else markup (Name False []) cs)
      else if c = CHR ''}'' then
        (case cs of
           [] \<Rightarrow> [Bad ''Single } encountered in format string'']
         | d # ds \<Rightarrow>
             if d = CHR ''}'' then Lit [c] # markup Text ds
             else [Bad ''Single } encountered in format string''])
      else Lit [c] # markup Text cs)"
| "markup (Name b acc) [] = [Bad ''expected } before end of string'']"
| "markup (Name True acc) (c # cs) =
     (if c = CHR '']'' then markup (Name False (acc @ [c])) cs
      else markup (Name True (acc @ [c])) cs)"
| "markup (Name False acc) (c # cs) =
     (if c = CHR ''{'' then [Bad ''unexpected { in field name'']
      else if c = CHR ''['' then markup (Name True (acc @ [c])) cs
      else if c = CHR ''}'' then
        Fld \<lparr>field_name = acc, conversion = None, format_spec = []\<rparr> # markup Text cs
      else if c = CHR '':'' then markup (Spec 0 acc None []) cs
      else if c = CHR ''!'' then markup (Conv acc) cs
      else markup (Name False (acc @ [c])) cs)"
| "markup (Conv name) [] = [Bad ''end of string while looking for conversion specifier'']"
| "markup (Conv name) (c # cs) = markup (ConvEnd name c) cs"
| "markup (ConvEnd name cv) [] = [Bad ''unmatched { in format spec'']"
| "markup (ConvEnd name cv) (c # cs) =
     (if c = CHR ''}'' then
        Fld \<lparr>field_name = name, conversion = Some cv, format_spec = []\<rparr> # markup Text cs
      else if c \<noteq> CHR '':'' then [Bad ''expected : after conversion specifier'']
      else markup (Spec 0 name (Some cv) []) cs)"
| "markup (Spec n name cv acc) [] = [Bad ''unmatched { in format spec'']"
| "markup (Spec n name cv acc) (c # cs) =
     (if c = CHR ''{'' then markup (Spec (Suc n) name cv (acc @ [c])) cs
      else if c = CHR ''}'' then
        (case n of
           0 \<Rightarrow> Fld \<lparr>field_name = name, conversion = cv, format_spec = acc\<rparr> # markup Text cs
         | Suc m \<Rightarrow> markup (Spec m name cv (acc @ [c])) cs)
      else markup (Spec n name cv (acc @ [c])) cs)"

text \<open>
  The argument a field names is the part of the field name before the first \<^verbatim>\<open>.\<close> or
  \<^verbatim>\<open>[\<close>. An empty or numeric argument is positional, and there are no positional arguments:
  \<^verbatim>\<open>IndexError\<close> (\<^verbatim>\<open>ValueError\<close> for a number beyond the largest index, \<open>2\<^sup>6\<^sup>3 - 1\<close>). A name
  is looked up in the parameters: \<^verbatim>\<open>KeyError\<close> when it is missing.
\<close>

definition arg_name :: "field \<Rightarrow> string" where
  "arg_name f = takeWhile (\<lambda>c. c \<noteq> CHR ''.'' \<and> c \<noteq> CHR ''['') (field_name f)"

definition arg_rest :: "field \<Rightarrow> string" where
  "arg_rest f = dropWhile (\<lambda>c. c \<noteq> CHR ''.'' \<and> c \<noteq> CHR ''['') (field_name f)"

definition is_keyword :: "string \<Rightarrow> bool" where
  "is_keyword a \<longleftrightarrow> a \<noteq> [] \<and> \<not> list_all is_digit a"

fun digits_nat :: "nat \<Rightarrow> string \<Rightarrow> nat" where
  "digits_nat acc [] = acc"
| "digits_nat acc (c # cs) = digits_nat (10 * acc + digit_val c) cs"

definition render_field :: "env \<Rightarrow> (string \<rightharpoonup> pyval) \<Rightarrow> field \<Rightarrow> error + string" where
  "render_field E params f =
     (if arg_name f = [] then Inl (IndexError ''Replacement index out of range'')
      else if list_all is_digit (arg_name f) then
        (if digits_nat 0 (arg_name f) > 2 ^ 63 - 1
         then Inl (ValueError ''Too many decimal digits in format string'')
         else Inl (IndexError ''Replacement index out of range''))
      else
        (case params (arg_name f) of
           None \<Rightarrow> Inl (KeyError (arg_name f))
         | Some v \<Rightarrow>
             if arg_rest f = [] \<and> conversion f = None \<and> format_spec f = [] then Inr (py_str v)
             else
               (case format_field E v (arg_rest f) (conversion f) (format_spec f) params of
                  Inl fe \<Rightarrow> Inl (error_of_field fe)
                | Inr r \<Rightarrow> Inr r)))"

fun render :: "env \<Rightarrow> (string \<rightharpoonup> pyval) \<Rightarrow> piece list \<Rightarrow> error + string" where
  "render E params [] = Inr []"
| "render E params (Lit s # ps) =
     (case render E params ps of Inl e \<Rightarrow> Inl e | Inr t \<Rightarrow> Inr (s @ t))"
| "render E params (Bad m # ps) = Inl (ValueError m)"
| "render E params (Fld f # ps) =
     (case render_field E params f of
        Inl e \<Rightarrow> Inl e
      | Inr s \<Rightarrow> (case render E params ps of Inl e \<Rightarrow> Inl e | Inr t \<Rightarrow> Inr (s @ t)))"

definition fill_in_template :: "env \<Rightarrow> string \<Rightarrow> (string \<rightharpoonup> pyval) \<Rightarrow> error + string" where
  "fill_in_template E template params = render E params (markup Text template)"

text \<open>The named placeholders of a template: the keyword arguments its fields name.\<close>

fun piece_keys :: "piece list \<Rightarrow> string list" where
  "piece_keys [] = []"
| "piece_keys (Fld f # ps) =
     (if is_keyword (arg_name f) then arg_name f # piece_keys ps else piece_keys ps)"
| "piece_keys (p # ps) = piece_keys ps"

definition placeholders :: "string \<Rightarrow> string list" where
  "placeholders template = piece_keys (markup Text template)"

subsection \<open>Sequencing\<close>

definition bind :: "'a res \<Rightarrow> ('a \<Rightarrow> world \<Rightarrow> 'b res) \<Rightarrow> 'b res" where
  "bind r f = (case r of Raised e w \<Rightarrow> Raised e w | Done x w \<Rightarrow> f x w)"

text \<open>The same with the state passed on: \<open>bind' m f w\<close> runs \<open>m\<close> in \<open>w\<close>, then \<open>f\<close>.\<close>

definition bind' :: "(world \<Rightarrow> 'a res) \<Rightarrow> ('a \<Rightarrow> world \<Rightarrow> 'b res) \<Rightarrow> world \<Rightarrow> 'b res" where
  "bind' m f w = bind (m w) f"

definition lift :: "error + 'a \<Rightarrow> world \<Rightarrow> 'a res" where
  "lift r w = (case r of Inl e \<Rightarrow> Raised e w | Inr x \<Rightarrow> Done x w)"

text \<open>\<^verbatim>\<open>int(cresult.stdout)\<close> and \<^verbatim>\<open>float(cresult.stdout)\<close>.\<close>

definition int_of_stdout :: "completed_process \<Rightarrow> error + int" where
  "int_of_stdout cresult =
     (case stdout cresult of
        None \<Rightarrow> Inl (TypeError ''int() argument must not be None'')
      | Some out \<Rightarrow> (case py_int out of Inl m \<Rightarrow> Inl (ValueError m) | Inr n \<Rightarrow> Inr n))"

definition float_of_stdout :: "env \<Rightarrow> completed_process \<Rightarrow> error + pyfloat" where
  "float_of_stdout E cresult =
     (case stdout cresult of
        None \<Rightarrow> Inl (TypeError ''float() argument must not be None'')
      | Some out \<Rightarrow> (case py_float E out of Inl m \<Rightarrow> Inl (ValueError m) | Inr x \<Rightarrow> Inr x))"

text \<open>The command lines the scripts build.\<close>

definition numvol_command :: "string \<Rightarrow> string" where
  "numvol_command path = ''sh getNumVolume.sh '' @ path"

definition trduration_command :: "string \<Rightarrow> string" where
  "trduration_command path = ''sh getTRDuration.sh '' @ path"

definition feat_command :: "string \<Rightarrow> string" where
  "feat_command path = ''feat '' @ [dq] @ path @ [dq]"

text \<open>What a computation leaves behind, whether it returned or raised.\<close>

fun error_of :: "'a res \<Rightarrow> error option" where
  "error_of (Raised e w) = Some e"
| "error_of (Done x w) = None"

fun world_of :: "'a res \<Rightarrow> world" where
  "world_of (Raised e w) = w"
| "world_of (Done x w) = w"

definition new_events :: "world \<Rightarrow> 'a res \<Rightarrow> event list" where
  "new_events w r = drop (length (trace w)) (trace (world_of r))"

subsection \<open>\<^verbatim>\<open>session_GLM\<close> (P8, \<^verbatim>\<open>batchGLM1.py\<close>)\<close>

text \<open>The parameter set of one run, in the order the script assigns the keys.\<close>

definition ev_entries :: "string \<Rightarrow> string \<Rightarrow> (string \<times> pyval) list" where
  "ev_entries workingDir EVPrefix =
     [(''image0WMplusPath'', PStr (join workingDir (EVPrefix @ ''image0_WMplus.txt''))),
      (''image0WMminusPath'', PStr (join workingDir (EVPrefix @ ''image0_WMminus.txt''))),
      (''image1WMplusPath'', PStr (join workingDir (EVPrefix @ ''image1_WMplus.txt''))),
      (''image1WMminusPath'', PStr (join workingDir (EVPrefix @ ''image1_WMminus.txt''))),
      (''image2WMplusPath'', PStr (join workingDir (EVPrefix @ ''image2_WMplus.txt''))),
      (''image2WMminusPath'', PStr (join workingDir (EVPrefix @ ''image2_WMminus.txt''))),
      (''image3WMplusPath'', PStr (join workingDir (EVPrefix @ ''image3_WMplus.txt''))),
      (''image3WMminusPath'', PStr (join workingDir (EVPrefix @ ''image3_WMminus.txt''))),
      (''image4WMplusPath'', PStr (join workingDir (EVPrefix @ ''image4_WMplus.txt''))),
      (''image4WMminusPath'', PStr (join workingDir (EVPrefix @ ''image4_WMminus.txt''))),
      (''image5WMplusPath'', PStr (join workingDir (EVPrefix @ ''image5_WMplus.txt''))),
      (''image5WMminusPath'', PStr (join workingDir (EVPrefix @ ''image5_WMminus.txt''))),
      (''image6WMplusPath'', PStr (join workingDir (EVPrefix @ ''image6_WMplus.txt''))),
      (''image6WMminusPath'', PStr (join workingDir (EVPrefix @ ''image6_WMminus.txt''))),
      (''image7WMplusPath'', PStr (join workingDir (EVPrefix @ ''image7_WMplus.txt''))),
      (''image7WMminusPath'', PStr (join workingDir (EVPrefix @ ''image7_WMminus.txt''))),
      (''image8WMplusPath'', PStr (join workingDir (EVPrefix @ ''image8_WMplus.txt''))),
      (''image8WMminusPath'', PStr (join workingDir (EVPrefix @ ''image8_WMminus.txt''))),
      (''image9WMplusPath'', PStr (join workingDir (EVPrefix @ ''image9_WMplus.txt''))),
      (''image9WMminusPath'', PStr (join workingDir (EVPrefix @ ''image9_WMminus.txt''))),
      (''norespPath'', PStr (join workingDir (EVPrefix @ ''noresponses.txt''))),
      (''testarraypostcuePath'', PStr (join workingDir (EVPrefix @ ''testarraypostcue.txt''))),
      (''testarrayretrocuePath'', PStr (join workingDir (EVPrefix @ ''testarrayretrocue.txt''))),
      (''memoryarrayretrocuePath'', PStr (join workingDir (EVPrefix @ ''memoryarrayretrocue.txt'')))]"

definition run_params :: "string \<Rightarrow> string \<Rightarrow> string \<Rightarrow> int \<Rightarrow> (string \<times> pyval) list" where
  "run_params workingDir runDir curRun numVolumes =
     [(''input_feat_file'',
         PStr (join3 runDir (curRun @ ''-preprocess.feat'') ''denoised_data.nii.gz'')),
      (''numVolumes'', PInt numVolumes)]
     @ ev_entries workingDir (''EVfiles/GLM1_run'' @ curRun @ ''_'')"

text \<open>The body of the loop over \<^verbatim>\<open>inputFolders\<close>.\<close>

definition session_GLM_run :: "env \<Rightarrow> string \<Rightarrow> string \<Rightarrow> string \<Rightarrow> world \<Rightarrow> unit res" where
  "session_GLM_run E workingDir GLM1Template runDir w =
     (let curRun = last2 runDir;
          input_feat_file = join3 runDir (curRun @ ''-preprocess.feat'') ''denoised_data.nii.gz'';
          blockGLMPath = join runDir (''block'' @ curRun @ ''_GLM1.fsf'')
      in
      bind (run_command E (numvol_command input_feat_file) True w) (\<lambda>cresult.
      bind' (lift (int_of_stdout cresult)) (\<lambda>numVolumes.
      bind' (lift (fill_in_template E GLM1Template
                    (map_of (run_params workingDir runDir curRun numVolumes)))) (\<lambda>blockGLMfsf.
      bind' (write_file E blockGLMPath blockGLMfsf) (\<lambda>_ w2.
      (let curDir = cwd w2
       in
       bind (chdir E runDir w2) (\<lambda>_.
       bind' (run_command E (feat_command blockGLMPath) True) (\<lambda>results.
       chdir E curDir))))))))"

fun session_GLM_loop :: "env \<Rightarrow> string \<Rightarrow> string \<Rightarrow> string list \<Rightarrow> world \<Rightarrow> unit res" where
  "session_GLM_loop E workingDir GLM1Template [] w = Done () w"
| "session_GLM_loop E workingDir GLM1Template (runDir # rest) w =
     bind (session_GLM_run E workingDir GLM1Template runDir w)
       (\<lambda>_. session_GLM_loop E workingDir GLM1Template rest)"

definition session_GLM :: "env \<Rightarrow> string \<Rightarrow> string list \<Rightarrow> world \<Rightarrow> unit res" where
  "session_GLM E workingDir inputFolders w =
     bind (get_FileHandler E (join workingDir ''GLM.log'') w) (\<lambda>_.
     bind' (read_file E (join workingDir ''GLM1_template.fsf'')) (\<lambda>GLM1Template.
     session_GLM_loop E workingDir GLM1Template inputFolders))"

definition session_GLM_CLI :: "env \<Rightarrow> string \<Rightarrow> world \<Rightarrow> unit res" where
  "session_GLM_CLI E args_workingDir w =
     (let workingDir = abspath E (cwd w) (expanduser E args_workingDir);
          toProcess = join workingDir ''to_process_main.txt''
      in
      bind (read_file E toProcess w) (\<lambda>inputs.
      session_GLM E workingDir (collect_folders workingDir [] (file_lines inputs))))"

subsection \<open>\<^verbatim>\<open>re.sub\<close> and \<^verbatim>\<open>re.search\<close> on the fixed-format lines\<close>

text \<open>
  Every pattern of \<^verbatim>\<open>batchFEAT_main.py\<close> is a literal key in group 1, followed by \<^verbatim>\<open>.*\<close> and,
  for the quoted ones, a closing double quote: \<^verbatim>\<open>(set feat_files\(1\) ").*"\<close>,
  \<^verbatim>\<open>(set fmri\(npts\) ).*\<close>. A pattern is given by its key (with the escapes of the pattern
  removed) and by whether the closing quote is there. The dot does not match a newline and
  the star is greedy: a quoted pattern matches from the key to the last double quote on
  the line, an unquoted one to the end of the line. \<open>match_at\<close> is the length of the match
  that begins at the head of the text.
\<close>

definition match_at :: "string \<Rightarrow> bool \<Rightarrow> string \<Rightarrow> nat option" where
  "match_at key closing s =
     (if take (length key) s \<noteq> key then None
      else
        (let line = takeWhile (\<lambda>c. c \<noteq> nl) (drop (length key) s)
         in if \<not> closing then Some (length key + length line)
            else if dq \<in> set line
              then Some (length key + (length line - length (takeWhile (\<lambda>c. c \<noteq> dq) (rev line))))
              else None))"

text \<open>
  The replacement is a template, compiled before the search begins: a backslash introduces
  a group reference (\<^verbatim>\<open>\1\<close>, \<^verbatim>\<open>\g<1>\<close>), an octal escape or a character escape; a backslash
  before another ASCII letter, a reference to a group the pattern does not have and a
  backslash at the end are errors. The patterns have no named groups, so a group name
  that is not a number is an error too. \<open>Inl\<close> is the exception raised (\<^verbatim>\<open>re.error\<close>, or
  \<^verbatim>\<open>IndexError\<close> for an unknown group name); the first argument is the number of groups.
\<close>

datatype tpiece = TLit string | TGroup nat

definition tcons :: "tpiece \<Rightarrow> string + tpiece list \<Rightarrow> string + tpiece list" where
  "tcons p r = (case r of Inl m \<Rightarrow> Inl m | Inr ps \<Rightarrow> Inr (p # ps))"

definition is_octdigit :: "char \<Rightarrow> bool" where
  "is_octdigit c \<longleftrightarrow> 48 \<le> (of_char c :: nat) \<and> (of_char c :: nat) \<le> 55"

definition is_ascii_letter :: "char \<Rightarrow> bool" where
  "is_ascii_letter c \<longleftrightarrow>
     (65 \<le> (of_char c :: nat) \<and> (of_char c :: nat) \<le> 90) \<or>
     (97 \<le> (of_char c :: nat) \<and> (of_char c :: nat) \<le> 122)"

fun oct_nat :: "nat \<Rightarrow> string \<Rightarrow> nat" where
  "oct_nat acc [] = acc"
| "oct_nat acc (c # cs) = oct_nat (8 * acc + digit_val c) cs"

definition escape_code :: "char \<Rightarrow> char option" where
  "escape_code c =
     (if c = CHR ''a'' then Some (CHR 0x07)
      else if c = CHR ''b'' then Some (CHR 0x08)
      else if c = CHR ''f'' then Some (CHR 0x0C)
      else if c = CHR ''n'' then Some nl
      else if c = CHR ''r'' then Some (CHR 0x0D)
      else if c = CHR ''t'' then Some (CHR 0x09)
      else if c = CHR ''v'' then Some (CHR 0x0B)
      else if c = bs then Some bs
      else None)"

definition group_ref :: "nat \<Rightarrow> nat \<Rightarrow> string + tpiece list \<Rightarrow> string + tpiece list" where
  "group_ref g index r =
     (if index > g then Inl ''invalid group reference'' else tcons (TGroup index) r)"

function parse_template :: "nat \<Rightarrow> string \<Rightarrow> string + tpiece list" where
  "parse_template g [] = Inr []"
| "parse_template g [c] =
     (if c = bs then Inl ''bad escape (end of pattern)'' else Inr [TLit [c]])"
| "parse_template g (c # d # ds) =
     (if c \<noteq> bs then tcons (TLit [c]) (parse_template g (d # ds))
      else if d = CHR ''g'' then
        (case ds of
           [] \<Rightarrow> Inl ''missing <''
         | lt # rest \<Rightarrow>
             if lt \<noteq> CHR ''<'' then Inl ''missing <''
             else if dropWhile (\<lambda>x. x \<noteq> CHR ''>'') rest = [] then Inl ''missing >, unterminated name''
             else if takeWhile (\<lambda>x. x \<noteq> CHR ''>'') rest = [] then Inl ''missing group name''
             else if \<not> list_all is_digit (takeWhile (\<lambda>x. x \<noteq> CHR ''>'') rest)
               then Inl ''unknown group name''
             else group_ref g (digits_nat 0 (takeWhile (\<lambda>x. x \<noteq> CHR ''>'') rest))
                    (parse_template g (tl (dropWhile (\<lambda>x. x \<noteq> CHR ''>'') rest))))
      else if d = CHR ''0'' then
        tcons (TLit [char_of (oct_nat 0 (takeWhile is_octdigit (take 2 ds)) mod 256)])
          (parse_template g (drop (length (takeWhile is_octdigit (take 2 ds))) ds))
      else if is_digit d then
        (case ds of
           [] \<Rightarrow> group_ref g (digit_val d) (Inr [])
         | e # es \<Rightarrow>
             if \<not> is_digit e then group_ref g (digit_val d) (parse_template g (e # es))
             else
               (case es of
                  [] \<Rightarrow> group_ref g (digits_nat 0 [d, e]) (Inr [])
                | f # fs \<Rightarrow>
                    if is_octdigit d \<and> is_octdigit e \<and> is_octdigit f then
                      (if oct_nat 0 [d, e, f] > 255 then Inl ''octal escape value outside of range''
                       else tcons (TLit [char_of (oct_nat 0 [d, e, f])]) (parse_template g fs))
                    else group_ref g (digits_nat 0 [d, e]) (parse_template g (f # fs))))
      else
        (case escape_code d of
           Some x \<Rightarrow> tcons (TLit [x]) (parse_template g ds)
         | None \<Rightarrow>
             if is_ascii_letter d then Inl ''bad escape''
             else tcons (TLit [c, d]) (parse_template g ds)))"
  by pat_completeness auto
termination
proof (relation "measure (\<lambda>(g, s). length s)", goal_cases)
  case (3 g c d ds lt rest)
  have "length (tl (dropWhile (\<lambda>x. x \<noteq> CHR ''>'') rest)) \<le> length rest"
    using length_dropWhile_le [of "\<lambda>x. x \<noteq> CHR ''>''" rest] by simp
  with 3 show ?case by simp
qed auto

text \<open>
  Expanding a compiled replacement for one match: group 0 is the whole match, group 1 is
  the key, which the pattern matches literally.
\<close>

fun expand :: "tpiece list \<Rightarrow> string \<Rightarrow> string \<Rightarrow> string" where
  "expand [] whole key = []"
| "expand (TLit s # ps) whole key = s @ expand ps whole key"
| "expand (TGroup n # ps) whole key = (if n = 0 then whole else key) @ expand ps whole key"

text \<open>
  \<^verbatim>\<open>re.sub\<close> replaces the matches from left to right, each search resuming where the previous
  match ended. The keys are not empty, so no match is empty.
\<close>

function sub_all :: "string \<Rightarrow> bool \<Rightarrow> tpiece list \<Rightarrow> string \<Rightarrow> string" where
  "sub_all key closing tpl [] = []"
| "sub_all key closing tpl (c # cs) =
     (case match_at key closing (c # cs) of
        Some (Suc n) \<Rightarrow> expand tpl (take (Suc n) (c # cs)) key @ sub_all key closing tpl (drop n cs)
      | _ \<Rightarrow> c # sub_all key closing tpl cs)"
  by pat_completeness auto
termination
  by (relation "measure (\<lambda>(key, closing, tpl, s). length s)") auto

definition re_sub :: "string \<Rightarrow> bool \<Rightarrow> string \<Rightarrow> string \<Rightarrow> error + string" where
  "re_sub key closing repl text =
     (case parse_template 1 repl of
        Inl m \<Rightarrow> Inl (ReError m)
      | Inr tpl \<Rightarrow> Inr (sub_all key closing tpl text))"

text \<open>
  \<^verbatim>\<open>re.search('PD_dir="(.*)"', directories).group(1)\<close>, for any key: the text between the key
  and the last double quote on the line of the first match; \<open>None\<close> when nothing matches.
\<close>

fun re_search_group :: "string \<Rightarrow> string \<Rightarrow> string option" where
  "re_search_group key [] = None"
| "re_search_group key (c # cs) =
     (case match_at key True (c # cs) of
        Some n \<Rightarrow> Some (take (n - length key - 1) (drop (length key) (c # cs)))
      | None \<Rightarrow> re_search_group key cs)"

text \<open>The two forms of replacement the script builds: \<^verbatim>\<open>r"\1" + v + '"'\<close> and \<^verbatim>\<open>r"\g<1>" + v\<close>.\<close>

definition quoted_repl :: "string \<Rightarrow> string" where
  "quoted_repl v = [bs, CHR ''1''] @ v @ [dq]"

definition number_repl :: "string \<Rightarrow> string" where
  "number_repl v = [bs] @ ''g<1>'' @ v"

subsection \<open>The P6 driver (\<^verbatim>\<open>batchFEAT_main.py\<close>)\<close>

definition key_highres :: string where "key_highres = ''set highres_files(1) '' @ [dq]"
definition key_feat_files :: string where "key_feat_files = ''set feat_files(1) '' @ [dq]"
definition key_outputdir :: string where "key_outputdir = ''set fmri(outputdir) '' @ [dq]"
definition key_st_file :: string where "key_st_file = ''set fmri(st_file) '' @ [dq]"
definition key_npts :: string where "key_npts = ''set fmri(npts) ''"
definition key_tr :: string where "key_tr = ''set fmri(tr) ''"

definition RAWFILEROOT :: string where "RAWFILEROOT = ''BIYUJADEHE''"
definition STRUCTURALFILENAME :: string where "STRUCTURALFILENAME = ''final_structural''"

definition slicetimings_command :: "string \<Rightarrow> string \<Rightarrow> int \<Rightarrow> string" where
  "slicetimings_command cur_nifii block_dir num_volume =
     ''sh makeSlicetimings.sh''
     @ ('' ../../RawMRIData/TEMP2A_P6_TC/*'' @ RAWFILEROOT @ ''.00'' @ cur_nifii @ ''.0*.IMA'')
     @ ('' '' @ block_dir @ ''/slicetimes.txt'')
     @ '' '' @ str_int num_volume"

definition block_dir_of :: "string \<Rightarrow> string \<Rightarrow> string" where
  "block_dir_of workingDir cur_nifii = join workingDir (''run'' @ cur_nifii)"

definition block_design_path_of :: "string \<Rightarrow> string \<Rightarrow> string" where
  "block_design_path_of workingDir cur_nifii =
     join (block_dir_of workingDir cur_nifii) (''block'' @ cur_nifii @ ''_design.fsf'')"

text \<open>The body of the loop over the lines of \<^verbatim>\<open>to_process_main.txt\<close>.\<close>

definition block_step :: "env \<Rightarrow> string \<Rightarrow> string \<Rightarrow> string \<Rightarrow> world \<Rightarrow> unit res" where
  "block_step E workingDir template inputFilename w =
     (let cur_nifii = first2 inputFilename;
          block_dir = block_dir_of workingDir cur_nifii;
          block_design_path = block_design_path_of workingDir cur_nifii;
          input_file_root = join workingDir cur_nifii
      in
      bind (makedirs E block_dir w) (\<lambda>_.
      bind' (copy_file E template block_design_path) (\<lambda>_.
      bind' (read_file E block_design_path) (\<lambda>block_design.
      bind' (lift (re_sub key_feat_files True (quoted_repl input_file_root) block_design)) (\<lambda>block_design.
      bind' (lift (re_sub key_outputdir True
                    (quoted_repl (join block_dir (cur_nifii @ ''-preprocess.feat''))) block_design)) (\<lambda>block_design.
      bind' (lift (re_sub key_st_file True
                    (quoted_repl (join block_dir ''slicetimes.txt'')) block_design)) (\<lambda>block_design.
      bind' (run_command E (numvol_command (input_file_root @ ''.nii.gz'')) True) (\<lambda>cresult.
      bind' (lift (int_of_stdout cresult)) (\<lambda>num_volume.
      bind' (lift (re_sub key_npts False (number_repl (str_int num_volume)) block_design)) (\<lambda>block_design.
      bind' (run_command E (trduration_command (input_file_root @ ''.nii.gz'')) True) (\<lambda>cresult.
      bind' (lift (float_of_stdout E cresult)) (\<lambda>TR_duration.
      bind' (lift (re_sub key_tr False (number_repl (format_6f E TR_duration)) block_design)) (\<lambda>block_design.
      bind' (write_file E block_design_path block_design) (\<lambda>_.
      bind' (run_command E (slicetimings_command cur_nifii block_dir num_volume) False) (\<lambda>results.
      bind' (chdir E block_dir) (\<lambda>_.
      bind' (run_command E (feat_command block_design_path) False) (\<lambda>results.
      chdir E workingDir)))))))))))))))))"

fun block_loop :: "env \<Rightarrow> string \<Rightarrow> string \<Rightarrow> string list \<Rightarrow> world \<Rightarrow> unit res" where
  "block_loop E workingDir template [] w = Done () w"
| "block_loop E workingDir template (inputFilename # rest) w =
     bind (block_step E workingDir template inputFilename w)
       (\<lambda>_. block_loop E workingDir template rest)"

text \<open>
  The statements before the loop: read \<^verbatim>\<open>directories.ini\<close>, then read the template, put
  the path of the structural image into it and write it back to the same file. The result
  is the working directory and the path of the template.
\<close>

definition template_setup :: "env \<Rightarrow> world \<Rightarrow> (string \<times> string) res" where
  "template_setup E w =
     (let workingDir = cwd w
      in
      bind (read_file E (join workingDir ''directories.ini'') w) (\<lambda>directories.
      bind' (lift (case re_search_group (''PD_dir='' @ [dq]) directories of
                     None \<Rightarrow> Inl (AttributeError ''NoneType object has no attribute group'')
                   | Some PD_dir \<Rightarrow> Inr PD_dir)) (\<lambda>PD_dir w1.
      (let structuarlDir = abspath E (cwd w1) PD_dir;
           template = join workingDir ''design_template_main.fsf''
       in
       bind (read_file E template w1) (\<lambda>fsfTemplate.
       bind' (lift (re_sub key_highres True
                     (quoted_repl (join structuarlDir STRUCTURALFILENAME)) fsfTemplate)) (\<lambda>fsfTemplate.
       bind' (write_file E template fsfTemplate) (\<lambda>_ w2. Done (workingDir, template) w2)))))))"

definition batchFEAT_main :: "env \<Rightarrow> world \<Rightarrow> unit res" where
  "batchFEAT_main E w =
     bind (template_setup E w) (\<lambda>(workingDir, template).
     bind' (read_file E (join workingDir ''to_process_main.txt'')) (\<lambda>inputs.
     block_loop E workingDir template (file_lines inputs)))"

subsection \<open>Observations on traces and templates\<close>

text \<open>
  The events the properties speak about: a file written by the script, the external tool
  invoked (a process whose first argument is \<^verbatim>\<open>feat\<close>), a parameter helper invoked
  (\<^verbatim>\<open>sh getNumVolume.sh\<close>, \<^verbatim>\<open>sh getTRDuration.sh\<close>), the configuration file of a run
  written.
\<close>

fun is_write :: "event \<Rightarrow> bool" where
  "is_write (EWrite p c) = True"
| "is_write ev = False"

fun is_tool_run :: "event \<Rightarrow> bool" where
  "is_tool_run (ERun a c rc) = (a \<noteq> [] \<and> hd a = ''feat'')"
| "is_tool_run ev = False"

fun is_helper_run :: "event \<Rightarrow> bool" where
  "is_helper_run (ERun a c rc) =
     (take 2 a = [''sh'', ''getNumVolume.sh''] \<or> take 2 a = [''sh'', ''getTRDuration.sh''])"
| "is_helper_run ev = False"

fun is_config_write :: "string \<Rightarrow> event \<Rightarrow> bool" where
  "is_config_write p (EWrite q c) = (q = p)"
| "is_config_write p ev = False"

fun exit_status :: "event \<Rightarrow> int" where
  "exit_status (ERun a c rc) = rc"
| "exit_status ev = 0"


text \<open>
  A monitor for the order of one run's steps: the configuration file may be written only
  after a helper has run, and the tool may be invoked only after the configuration file
  has been written. The flags say what has happened so far.
\<close>

fun step_ordered :: "string \<Rightarrow> bool \<Rightarrow> bool \<Rightarrow> event list \<Rightarrow> bool" where
  "step_ordered cfg derived written [] = True"
| "step_ordered cfg derived written (ev # evs) =
     (if is_tool_run ev then written \<and> step_ordered cfg derived written evs
      else if is_config_write cfg ev then derived \<and> step_ordered cfg derived True evs
      else if is_helper_run ev then step_ordered cfg True written evs
      else step_ordered cfg derived written evs)"

text \<open>The keys \<^verbatim>\<open>session_GLM\<close> supplies, whatever the run.\<close>

definition glm1_keys :: "string list" where
  "glm1_keys = map fst (run_params [] [] [] 0)"

text \<open>
  A plain field is a name in braces, with no attribute or index part, no conversion and no
  format specification; a plain template has only plain fields.
\<close>

definition plain_field :: "field \<Rightarrow> bool" where
  "plain_field f \<longleftrightarrow> arg_rest f = [] \<and> conversion f = None \<and> format_spec f = []"

fun plain_pieces :: "piece list \<Rightarrow> bool" where
  "plain_pieces [] = True"
| "plain_pieces (Fld f # ps) = (plain_field f \<and> plain_pieces ps)"
| "plain_pieces (p # ps) = plain_pieces ps"

definition plain_template :: "string \<Rightarrow> bool" where
  "plain_template template = plain_pieces (markup Text template)"

subsection \<open>A concrete environment\<close>

text \<open>
  An environment in which the helper scripts print \<^verbatim>\<open>120\<close> and \<^verbatim>\<open>2.000000\<close>, every program
  leaves the files alone, and the program named \<open>bad\<close> (any command with that argument)
  exits with status \<open>1\<close>; nothing else fails. The properties below are instantiated with
  it.
\<close>

definition stub_run ::
  "string \<Rightarrow> world \<Rightarrow> string list \<Rightarrow> bool \<Rightarrow> string + (int \<times> string \<times> (string \<rightharpoonup> string))" where
  "stub_run bad w sargs cap =
     (if sargs = [] then Inl ''empty command''
      else if bad \<in> set sargs then Inr (1, [], files w)
      else if ''getNumVolume.sh'' \<in> set sargs then Inr (0, ''120'' @ [nl], files w)
      else if ''getTRDuration.sh'' \<in> set sargs then Inr (0, ''2.000000'' @ [nl], files w)
      else Inr (0, [], files w))"

definition stub_env :: "string \<Rightarrow> env" where
  "stub_env bad =
     \<lparr>subprocess_run = stub_run bad,
      os_error = (\<lambda>w ev. None),
      abspath = (\<lambda>d p. join d p),
      expanduser = (\<lambda>p. p),
      py_float = (\<lambda>s. if strip s = ''2.000000'' then Inr (Finite 1 1) else Inl ''could not convert''),
      format_6f = (\<lambda>x. if x = Finite 1 1 then ''2.000000'' else ''nan''),
      format_field = (\<lambda>v r c s ps. Inl (FieldValueError ''Invalid format specifier''))\<rparr>"

definition stub_world :: "(string \<times> string) list \<Rightarrow> world" where
  "stub_world fs = \<lparr>cwd = ''/w'', files = map_of fs, trace = []\<rparr>"

text \<open>
  A working directory \<^verbatim>\<open>/w\<close> for the P6 driver: the template holds one line for each key
  the script rewrites, the manifest names runs \<^verbatim>\<open>05\<close> and \<^verbatim>\<open>12\<close>.
\<close>

definition demo_fsf :: string where
  "demo_fsf =
     key_highres @ ''old'' @ [dq, nl]
     @ key_feat_files @ ''in'' @ [dq, nl]
     @ key_outputdir @ ''out'' @ [dq, nl]
     @ key_st_file @ ''st'' @ [dq, nl]
     @ key_npts @ ''100'' @ [nl]
     @ key_tr @ ''1.0'' @ [nl]"

definition demo_world :: world where
  "demo_world =
     stub_world
       [(''/w/directories.ini'', ''PD_dir='' @ [dq] @ ''/data/PD'' @ [dq, nl]),
        (''/w/design_template_main.fsf'', demo_fsf),
        (''/w/to_process_main.txt'', ''05_run.nii'' @ [nl] @ ''12_run.nii'' @ [nl]),
        (''/w/GLM1_template.fsf'', ''set fmri(npts) {numVolumes}'' @ [nl])]"

section \<open>Properties\<close>

subsection \<open>Exit status\<close>



subsection \<open>Run discovery\<close>

lemma collect_folders_map:
  "collect_folders workingDir acc ls = acc @ map (\<lambda>l. join workingDir (''run'' @ take 2 l)) ls"
  by (induction ls arbitrary: acc) (simp_all add: first2_def Let_def)

lemma loop_identifiers_map: "loop_identifiers ls = map (take 2) ls"
  by (induction ls) (simp_all add: first2_def)

lemma concat_file_lines: "concat (file_lines s) = s"
  by (induction s) (auto split: list.splits)

lemma file_lines_nonempty: "l \<in> set (file_lines s) \<Longrightarrow> l \<noteq> []"
  by (induction s arbitrary: l) (auto split: list.splits if_splits)

lemma file_lines_inner: "l \<in> set (file_lines s) \<Longrightarrow> nl \<notin> set (butlast l)"
proof (induction s arbitrary: l)
  case Nil
  then show ?case by simp
next
  case (Cons c cs)
  show ?case
  proof (cases "c = nl")
    case True
    with Cons show ?thesis by auto
  next
    case False
    show ?thesis
    proof (cases "file_lines cs")
      case Nil
      with Cons False show ?thesis by auto
    next
      case (Cons l' ls)
      with Cons.prems False have "l = c # l' \<or> l \<in> set ls" by auto
      moreover have "l' \<noteq> []" using file_lines_nonempty [of l' cs] Cons by simp
      moreover have "nl \<notin> set (butlast l')" using Cons.IH [of l'] Cons by simp
      moreover have "l \<in> set ls \<Longrightarrow> nl \<notin> set (butlast l)" using Cons.IH [of l] Cons by simp
      ultimately show ?thesis using False by auto
    qed
  qed
qed

lemma file_lines_terminated: "l \<in> set (butlast (file_lines s)) \<Longrightarrow> last l = nl"
proof (induction s arbitrary: l)
  case Nil
  then show ?case by simp
next
  case (Cons c cs)
  show ?case
  proof (cases "c = nl")
    case True
    with Cons show ?thesis by (auto split: if_splits)
  next
    case False
    show ?thesis
    proof (cases "file_lines cs")
      case Nil
      with Cons False show ?thesis by auto
    next
      case (Cons l' ls)
      have ne: "l' \<noteq> []" using file_lines_nonempty [of l' cs] Cons by simp
      from Cons.prems False Cons have "l \<in> set (butlast ((c # l') # ls))" by simp
      then have "(l = c # l' \<and> ls \<noteq> []) \<or> l \<in> set (butlast ls)" by (auto split: if_splits)
      then show ?thesis
      proof
        assume a: "l = c # l' \<and> ls \<noteq> []"
        then have "l' \<in> set (butlast (file_lines cs))" using Cons by simp
        then have "last l' = nl" by (rule Cons.IH)
        with a ne show ?thesis by simp
      next
        assume "l \<in> set (butlast ls)"
        then have "l \<in> set (butlast (file_lines cs))" using Cons by (auto split: if_splits)
        then show ?thesis by (rule Cons.IH)
      qed
    qed
  qed
qed

lemma last2_join_run:
  assumes "2 \<le> length l"
  shows "last2 (join workingDir (''run'' @ take 2 l)) = take 2 l"
proof -
  have len: "length (take 2 l) = 2" using assms by simp
  have "\<And>pre. last2 (pre @ take 2 l) = take 2 l"
    using len by (simp add: last2_def)
  then have "last2 (workingDir @ ''run'' @ take 2 l) = take 2 l"
    and "last2 ((workingDir @ [sep]) @ ''run'' @ take 2 l) = take 2 l"
    by (metis append.assoc)+
  then show ?thesis by (simp add: join_def)
qed

lemma spec_agrees:
  "\<forall>l\<in>set ls. \<not> is_blank_line l \<Longrightarrow> map (take 2) (filter (\<lambda>l. \<not> is_blank_line l) ls) = map (take 2) ls"
  by (induction ls) auto

text \<open>
  C2 (as the scripts behave). Run discovery yields exactly one identifier per line of the
  manifest, blank lines included, in the order of the file: the folder list of
  \<^verbatim>\<open>session_GLM_CLI\<close> and the identifiers of the P6 loop are the images of the lines
  under \<^verbatim>\<open>[0:2]\<close>. The lines are the file cut after each newline. A line of at least two
  characters gives a folder from which \<^verbatim>\<open>session_GLM\<close> reads the same two characters back.
  When no line is blank, the identifiers are those the specification describes.
\<close>

theorem run_discovery:
  "collect_folders workingDir [] (file_lines manifest)
     = map (\<lambda>l. join workingDir (''run'' @ take 2 l)) (file_lines manifest)
   \<and> loop_identifiers (file_lines manifest) = map (take 2) (file_lines manifest)
   \<and> concat (file_lines manifest) = manifest
   \<and> (\<forall>l\<in>set (file_lines manifest). l \<noteq> [] \<and> nl \<notin> set (butlast l))
   \<and> (\<forall>l\<in>set (butlast (file_lines manifest)). last l = nl)
   \<and> (\<forall>l\<in>set (file_lines manifest).
        2 \<le> length l \<longrightarrow> last2 (join workingDir (''run'' @ take 2 l)) = take 2 l)
   \<and> ((\<forall>l\<in>set (file_lines manifest). \<not> is_blank_line l) \<longrightarrow>
        loop_identifiers (file_lines manifest) = spec_run_identifiers manifest)"
  using file_lines_nonempty file_lines_inner file_lines_terminated last2_join_run
  by (simp add: collect_folders_map loop_identifiers_map concat_file_lines
      spec_run_identifiers_def spec_agrees)

text \<open>
  A manifest with a blank line between two runs: three identifiers, the middle one being
  the newline itself (and \<^verbatim>\<open>n\<close> followed by a newline once read back from the folder),
  where the specification expects two.
\<close>

theorem run_discovery_counterexample:
  "loop_identifiers (file_lines (''05_run.nii'' @ [nl] @ [nl] @ ''12_run.nii'' @ [nl])) = [''05'', [nl], ''12'']
   \<and> map last2 (collect_folders ''/w'' [] (file_lines (''05_run.nii'' @ [nl] @ [nl] @ ''12_run.nii'' @ [nl])))
       = [''05'', ''n'' @ [nl], ''12'']
   \<and> spec_run_identifiers (''05_run.nii'' @ [nl] @ [nl] @ ''12_run.nii'' @ [nl]) = [''05'', ''12'']"
  by (simp add: first2_def last2_def join_def spec_run_identifiers_def is_blank_line_def Let_def)

theorem run_discovery_witness:
  "list_all (\<lambda>l. \<not> is_blank_line l \<and> 2 \<le> length l)
     (file_lines (''05_run.nii'' @ [nl] @ ''12_run.nii'' @ [nl]))
   \<and> loop_identifiers (file_lines (''05_run.nii'' @ [nl] @ ''12_run.nii'' @ [nl])) = [''05'', ''12'']
   \<and> spec_run_identifiers (''05_run.nii'' @ [nl] @ ''12_run.nii'' @ [nl]) = [''05'', ''12'']
   \<and> collect_folders ''/w'' [] (file_lines (''05_run.nii'' @ [nl] @ ''12_run.nii'' @ [nl])) = [''/w/run05'', ''/w/run12'']
   \<and> map last2 [''/w/run05'', ''/w/run12''] = [''05'', ''12'']"
  using run_discovery [of "''/w''" "''05_run.nii'' @ [nl] @ ''12_run.nii'' @ [nl]"]
  by (simp add: first2_def last2_def join_def spec_run_identifiers_def is_blank_line_def Let_def)

subsection \<open>Tokens of the command lines, and the operations one at a time\<close>



lemma shlex_numvol:
  "shlex_split (numvol_command x) = Inr ts \<Longrightarrow> take 2 ts = [''sh'', ''getNumVolume.sh'']"
  by (auto simp: numvol_command_def shlex_split_def is_shlex_ws_def split: sum.splits)

lemma shlex_trduration:
  "shlex_split (trduration_command x) = Inr ts \<Longrightarrow> take 2 ts = [''sh'', ''getTRDuration.sh'']"
  by (auto simp: trduration_command_def shlex_split_def is_shlex_ws_def split: sum.splits)

lemma shlex_slicetimings:
  "shlex_split (slicetimings_command c b n) = Inr ts \<Longrightarrow> take 2 ts = [''sh'', ''makeSlicetimings.sh'']"
  by (auto simp: slicetimings_command_def shlex_split_def is_shlex_ws_def split: sum.splits)

lemma shlex_feat:
  "shlex_split (feat_command x) = Inr ts \<Longrightarrow> ts \<noteq> [] \<and> hd ts = ''feat''"
  by (auto simp: feat_command_def shlex_split_def is_shlex_ws_def split: sum.splits)

lemma take2_hd: "take 2 ts = [a, b] \<Longrightarrow> ts \<noteq> [] \<and> hd ts = a"
  by (cases ts) auto

lemma numvol_event:
  assumes "shlex_split (numvol_command x) = Inr ts"
  shows "is_helper_run (ERun ts c rc) \<and> \<not> is_tool_run (ERun ts c rc)"
  using shlex_numvol [OF assms] take2_hd [of ts "''sh''" "''getNumVolume.sh''"] by simp

lemma trduration_event:
  assumes "shlex_split (trduration_command x) = Inr ts"
  shows "is_helper_run (ERun ts c rc) \<and> \<not> is_tool_run (ERun ts c rc)"
  using shlex_trduration [OF assms] take2_hd [of ts "''sh''" "''getTRDuration.sh''"] by simp

lemma slicetimings_event:
  assumes "shlex_split (slicetimings_command a b n) = Inr ts"
  shows "\<not> is_helper_run (ERun ts c rc) \<and> \<not> is_tool_run (ERun ts c rc)"
  using shlex_slicetimings [OF assms] take2_hd [of ts "''sh''" "''makeSlicetimings.sh''"] by simp

lemma feat_event:
  assumes "shlex_split (feat_command x) = Inr ts"
  shows "\<not> is_helper_run (ERun ts c rc) \<and> is_tool_run (ERun ts c rc)"
proof -
  from shlex_feat [OF assms] obtain t rest where "ts = t # rest" "t = ''feat''"
    by (cases ts) auto
  then show ?thesis by (cases rest) auto
qed

text \<open>What each operation does to the directory and the trace.\<close>

lemma bind'_Done:
  "bind' m f w = Done y w'' \<Longrightarrow> \<exists>x w'. m w = Done x w' \<and> f x w' = Done y w''"
  by (auto simp: bind'_def bind_def split: res.splits)

lemma bind'_Raised:
  "bind' m f w = Raised e w'' \<Longrightarrow> m w = Raised e w'' \<or> (\<exists>x w'. m w = Done x w' \<and> f x w' = Raised e w'')"
  by (auto simp: bind'_def bind_def split: res.splits)

lemma bind_bind': "bind (m w) f = bind' m f w"
  by (simp add: bind'_def)

lemma lift_Done: "lift r w = Done x w' \<Longrightarrow> w' = w \<and> r = Inr x"
  by (auto simp: lift_def split: sum.splits)

lemma lift_Raised: "lift r w = Raised e w' \<Longrightarrow> w' = w \<and> r = Inl e"
  by (auto simp: lift_def split: sum.splits)

lemma run_command_Done:
  "run_command E cmd cap w = Done p w' \<Longrightarrow>
     cwd w' = cwd w \<and> shlex_split cmd = Inr (args p) \<and> trace w' = trace w @ [ERun (args p) cap 0]
     \<and> returncode p = 0 \<and> stdout p \<noteq> None = cap"
  by (auto simp: run_command_def Let_def record_event_def split: sum.splits prod.splits if_splits)

lemma run_command_Raised:
  "run_command E cmd cap w = Raised e w' \<Longrightarrow>
     cwd w' = cwd w \<and>
     (w' = w \<and> (\<forall>p. e \<noteq> RuntimeError p) \<or>
      (\<exists>p. e = RuntimeError p \<and> returncode p \<noteq> 0 \<and> shlex_split cmd = Inr (args p)
          \<and> trace w' = trace w @ [ERun (args p) cap (returncode p)]))"
  by (auto simp: run_command_def Let_def record_event_def split: sum.splits prod.splits if_splits)

lemma write_file_Done:
  "write_file E p c w = Done u w' \<Longrightarrow> cwd w' = cwd w \<and> trace w' = trace w @ [EWrite p c]
     \<and> files w' = (files w)(resolve w p \<mapsto> c)"
  by (auto simp: write_file_def record_event_def split: option.splits)

lemma write_file_Raised:
  "write_file E p c w = Raised e w' \<Longrightarrow> w' = w \<and> (\<forall>q. e \<noteq> RuntimeError q)"
  by (auto simp: write_file_def record_event_def split: option.splits)

lemma read_file_Done:
  "read_file E p w = Done c w' \<Longrightarrow> cwd w' = cwd w \<and> trace w' = trace w @ [ERead p]
     \<and> files w' = files w \<and> files w (resolve w p) = Some c"
  by (auto simp: read_file_def record_event_def split: option.splits)

lemma read_file_Raised:
  "read_file E p w = Raised e w' \<Longrightarrow> w' = w \<and> (\<forall>q. e \<noteq> RuntimeError q)"
  by (auto simp: read_file_def record_event_def split: option.splits)

lemma copy_file_Done:
  "copy_file E src dst w = Done u w' \<Longrightarrow> cwd w' = cwd w \<and> trace w' = trace w @ [ECopy src dst]
     \<and> files w' = (files w)(resolve w dst := files w (resolve w src)) \<and> files w (resolve w src) \<noteq> None"
  by (auto simp: copy_file_def record_event_def split: option.splits)

lemma copy_file_Raised:
  "copy_file E src dst w = Raised e w' \<Longrightarrow> w' = w \<and> (\<forall>q. e \<noteq> RuntimeError q)"
  by (auto simp: copy_file_def record_event_def split: option.splits)

lemma makedirs_Done:
  "makedirs E p w = Done u w' \<Longrightarrow> cwd w' = cwd w \<and> trace w' = trace w @ [EMakedirs p] \<and> files w' = files w"
  by (auto simp: makedirs_def record_event_def split: option.splits)

lemma makedirs_Raised:
  "makedirs E p w = Raised e w' \<Longrightarrow> w' = w \<and> (\<forall>q. e \<noteq> RuntimeError q)"
  by (auto simp: makedirs_def record_event_def split: option.splits)

lemma chdir_Done:
  "chdir E p w = Done u w' \<Longrightarrow> cwd w' = resolve w p \<and> trace w' = trace w @ [EChdir p] \<and> files w' = files w"
  by (auto simp: chdir_def record_event_def split: option.splits)

lemma chdir_Raised:
  "chdir E p w = Raised e w' \<Longrightarrow> w' = w \<and> (\<forall>q. e \<noteq> RuntimeError q)"
  by (auto simp: chdir_def record_event_def split: option.splits)

lemma re_sub_error: "re_sub key closing repl text = Inl e \<Longrightarrow> \<forall>q. e \<noteq> RuntimeError q"
  by (auto simp: re_sub_def split: sum.splits)

lemma int_of_stdout_error: "int_of_stdout c = Inl e \<Longrightarrow> \<forall>q. e \<noteq> RuntimeError q"
  by (auto simp: int_of_stdout_def split: sum.splits option.splits)

lemma float_of_stdout_error: "float_of_stdout E c = Inl e \<Longrightarrow> \<forall>q. e \<noteq> RuntimeError q"
  by (auto simp: float_of_stdout_def split: sum.splits option.splits)


lemma lift_re_sub_Raised:
  "lift (re_sub key closing repl text) w = Raised e w' \<Longrightarrow> w' = w \<and> (\<forall>q. e \<noteq> RuntimeError q)"
  by (auto dest!: lift_Raised dest: re_sub_error)

lemma lift_int_Raised:
  "lift (int_of_stdout c) w = Raised e w' \<Longrightarrow> w' = w \<and> (\<forall>q. e \<noteq> RuntimeError q)"
  by (auto dest!: lift_Raised dest: int_of_stdout_error)

lemma lift_float_Raised:
  "lift (float_of_stdout E c) w = Raised e w' \<Longrightarrow> w' = w \<and> (\<forall>q. e \<noteq> RuntimeError q)"
  by (auto dest!: lift_Raised dest: float_of_stdout_error)

lemmas Done_dests = bind'_Done lift_Done run_command_Done write_file_Done read_file_Done
  copy_file_Done makedirs_Done chdir_Done

lemmas Raised_dests = bind'_Raised lift_re_sub_Raised lift_int_Raised lift_float_Raised
  run_command_Raised write_file_Raised read_file_Raised copy_file_Raised makedirs_Raised
  chdir_Raised

lemma shlex_facts:
  "shlex_split (numvol_command x) = Inr ts \<Longrightarrow>
     take 2 ts = [''sh'', ''getNumVolume.sh''] \<and> ts \<noteq> [] \<and> hd ts = ''sh''"
  "shlex_split (trduration_command x) = Inr ts \<Longrightarrow>
     take 2 ts = [''sh'', ''getTRDuration.sh''] \<and> ts \<noteq> [] \<and> hd ts = ''sh''"
  "shlex_split (slicetimings_command a b n) = Inr ts \<Longrightarrow>
     take 2 ts = [''sh'', ''makeSlicetimings.sh''] \<and> ts \<noteq> [] \<and> hd ts = ''sh''"
  "shlex_split (feat_command x) = Inr ts \<Longrightarrow>
     ts \<noteq> [] \<and> hd ts = ''feat'' \<and> take 2 ts \<noteq> [''sh'', ''getNumVolume.sh'']
     \<and> take 2 ts \<noteq> [''sh'', ''getTRDuration.sh'']"
  using shlex_numvol [of x ts] shlex_trduration [of x ts] shlex_slicetimings [of a b n ts]
    shlex_feat [of x ts] take2_hd [of ts "''sh''"]
  by auto



lemma render_field_error: "render_field E params f = Inl e \<Longrightarrow> \<forall>q. e \<noteq> RuntimeError q"
proof -
  have "\<And>fe q. error_of_field fe \<noteq> RuntimeError q"
    by (case_tac fe) auto
  then show "render_field E params f = Inl e \<Longrightarrow> \<forall>q. e \<noteq> RuntimeError q"
    by (auto simp: render_field_def split: if_splits option.splits sum.splits)
qed

lemma render_error: "render E params ps = Inl e \<Longrightarrow> \<forall>q. e \<noteq> RuntimeError q"
proof (induction ps)
  case Nil
  then show ?case by simp
next
  case (Cons p ps)
  then show ?case
    using render_field_error by (cases p) (fastforce split: sum.splits)+
qed

lemma fill_in_template_error: "fill_in_template E t params = Inl e \<Longrightarrow> \<forall>q. e \<noteq> RuntimeError q"
  unfolding fill_in_template_def by (rule render_error)

subsection \<open>The steps of one run\<close>


lemma P6_done_events:
  "block_step E workingDir template l w = Done u w' \<Longrightarrow>
   \<exists>h1 h2 doc s t.
     trace w' = trace w @
       [EMakedirs (block_dir_of workingDir (first2 l)),
        ECopy template (block_design_path_of workingDir (first2 l)),
        ERead (block_design_path_of workingDir (first2 l)),
        ERun h1 True 0, ERun h2 True 0,
        EWrite (block_design_path_of workingDir (first2 l)) doc,
        ERun s False 0,
        EChdir (block_dir_of workingDir (first2 l)),
        ERun t False 0,
        EChdir workingDir]
     \<and> take 2 h1 = [''sh'', ''getNumVolume.sh''] \<and> take 2 h2 = [''sh'', ''getTRDuration.sh'']
     \<and> take 2 s = [''sh'', ''makeSlicetimings.sh''] \<and> t \<noteq> [] \<and> hd t = ''feat''"
  unfolding block_step_def Let_def bind_bind'
  by (auto dest!: Done_dests shlex_facts)

lemma P6_raised:
  "block_step E workingDir template l w = Raised e w' \<Longrightarrow>
   \<exists>evs. trace w' = trace w @ evs
     \<and> step_ordered (block_design_path_of workingDir (first2 l)) False False evs
     \<and> (\<forall>ev\<in>set evs. is_helper_run ev \<and> exit_status ev \<noteq> 0 \<longrightarrow>
           (\<forall>ev\<in>set evs. \<not> is_write ev \<and> \<not> is_tool_run ev) \<and> cwd w' = cwd w
           \<and> (\<exists>p. e = RuntimeError p \<and> ev = ERun (args p) True (returncode p)))
     \<and> (\<forall>ev\<in>set evs. is_tool_run ev \<and> exit_status ev \<noteq> 0 \<longrightarrow>
           cwd w' = join (cwd w) (block_dir_of workingDir (first2 l))
           \<and> (\<exists>p. e = RuntimeError p \<and> ev = ERun (args p) False (returncode p)))"
  unfolding block_step_def Let_def bind_bind'
  by (auto dest!: Raised_dests Done_dests shlex_facts simp: resolve_def)


lemma P8_done_events:
  "session_GLM_run E workingDir T runDir w = Done u w' \<Longrightarrow>
   \<exists>h doc t.
     trace w' = trace w @
       [ERun h True 0,
        EWrite (join runDir (''block'' @ last2 runDir @ ''_GLM1.fsf'')) doc,
        EChdir runDir,
        ERun t True 0,
        EChdir (cwd w)]
     \<and> take 2 h = [''sh'', ''getNumVolume.sh''] \<and> t \<noteq> [] \<and> hd t = ''feat''
     \<and> (\<exists>n. fill_in_template E T (map_of (run_params workingDir runDir (last2 runDir) n)) = Inr doc)"
  unfolding session_GLM_run_def Let_def bind_bind'
  by (auto dest!: Done_dests shlex_facts)

lemma lift_fill_Raised:
  "lift (fill_in_template E t params) w = Raised e w' \<Longrightarrow> w' = w \<and> (\<forall>q. e \<noteq> RuntimeError q)"
  by (auto dest!: lift_Raised dest: fill_in_template_error)


lemma P8_no_template:
  assumes "\<And>n. \<exists>e. fill_in_template E T (map_of (run_params workingDir runDir (last2 runDir) n)) = Inl e"
  shows "\<exists>e w'. session_GLM_run E workingDir T runDir w = Raised e w' \<and>
           (\<exists>evs. trace w' = trace w @ evs \<and> (\<forall>ev\<in>set evs. \<not> is_write ev \<and> \<not> is_tool_run ev))"
proof -
  have never: "\<And>n doc. fill_in_template E T (map_of (run_params workingDir runDir (last2 runDir) n)) \<noteq> Inr doc"
    using assms by (metis sum.distinct(1))
  show ?thesis
  proof (cases "session_GLM_run E workingDir T runDir w")
    case (Done u w')
    from P8_done_events [OF Done] never show ?thesis by blast
  next
    case (Raised e w')
    then have "\<exists>evs. trace w' = trace w @ evs \<and> (\<forall>ev\<in>set evs. \<not> is_write ev \<and> \<not> is_tool_run ev)"
      using never
      unfolding session_GLM_run_def Let_def bind_bind'
      by (auto dest!: Raised_dests lift_fill_Raised Done_dests shlex_facts)
    with Raised show ?thesis by blast
  qed
qed

subsection \<open>Templates with a missing key, loops, and the P6 preamble\<close>

lemma render_missing:
  "Fld f \<in> set ps \<Longrightarrow> is_keyword (arg_name f) \<Longrightarrow> params (arg_name f) = None \<Longrightarrow>
   \<exists>e. render E params ps = Inl e"
proof (induction ps)
  case Nil
  then show ?case by simp
next
  case (Cons p ps)
  show ?case
  proof (cases "p = Fld f")
    case True
    with Cons.prems show ?thesis by (simp add: render_field_def is_keyword_def)
  next
    case False
    with Cons obtain e where "render E params ps = Inl e" by auto
    then show ?thesis by (cases p) (auto split: sum.splits)
  qed
qed

lemma piece_keys_field:
  "k \<in> set (piece_keys ps) \<Longrightarrow> \<exists>f. Fld f \<in> set ps \<and> is_keyword (arg_name f) \<and> arg_name f = k"
  by (induction ps rule: piece_keys.induct) (auto split: if_splits)

lemma fill_missing:
  assumes "k \<in> set (placeholders template)" and "params k = None"
  shows "\<exists>e. fill_in_template E template params = Inl e"
proof -
  from assms(1) obtain f where "Fld f \<in> set (markup Text template)" "is_keyword (arg_name f)" "arg_name f = k"
    unfolding placeholders_def using piece_keys_field by blast
  with assms(2) show ?thesis unfolding fill_in_template_def using render_missing by blast
qed

lemma render_first_missing:
  "render E params ps1 = Inr s \<Longrightarrow> is_keyword (arg_name f) \<Longrightarrow> params (arg_name f) = None \<Longrightarrow>
   render E params (ps1 @ Fld f # ps2) = Inl (KeyError (arg_name f))"
proof (induction ps1 arbitrary: s)
  case Nil
  then show ?case by (simp add: render_field_def is_keyword_def)
next
  case (Cons p ps1)
  then show ?case by (cases p) (auto split: sum.splits)
qed

lemma keys_run_params: "map fst (run_params workingDir runDir curRun n) = glm1_keys"
  by (simp add: glm1_keys_def run_params_def ev_entries_def)

lemma run_params_missing:
  "k \<notin> set glm1_keys \<Longrightarrow> map_of (run_params workingDir runDir curRun n) k = None"
  using keys_run_params [of workingDir runDir curRun n]
  by (metis map_of_eq_None_iff set_map)


lemma new_events_append: "trace w' = trace w @ evs \<Longrightarrow> new_events w (Raised e w') = evs"
  "trace w' = trace w @ evs \<Longrightarrow> new_events w (Done u w') = evs"
  by (simp_all add: new_events_def)




lemma template_setup_Done:
  "template_setup E w = Done (workingDir, template) w' \<Longrightarrow>
   workingDir = cwd w \<and> cwd w' = cwd w \<and> template = join (cwd w) ''design_template_main.fsf''
   \<and> (\<exists>old new PD_dir.
         files w (resolve w template) = Some old
         \<and> re_search_group (''PD_dir='' @ [dq]) (the (files w (resolve w (join (cwd w) ''directories.ini'')))) = Some PD_dir
         \<and> re_sub key_highres True (quoted_repl (join (abspath E (cwd w) PD_dir) STRUCTURALFILENAME)) old = Inr new
         \<and> files w' = (files w)(resolve w template \<mapsto> new)
         \<and> trace w' = trace w @ [ERead (join (cwd w) ''directories.ini''), ERead template, EWrite template new])"
  unfolding template_setup_def Let_def bind_bind'
  by (auto dest!: Done_dests simp: resolve_def split: option.splits)


subsection \<open>The order of one run's steps\<close>





subsection \<open>The working directory\<close>





subsection \<open>A failing helper\<close>





subsection \<open>A placeholder without a key\<close>

text \<open>
  C3. Let \<open>k\<close> be a named placeholder of the template. If the parameters have no key
  \<open>k\<close>, \<open>fill_in_template\<close> raises. The exception is the \<^verbatim>\<open>KeyError\<close> of the first field
  whose key is missing, provided the template renders up to that field. In \<^verbatim>\<open>session_GLM\<close>
  the keys are fixed; when \<open>k\<close> is not one of them the run step raises, and the effects of
  the step up to the exception include no write of any file and no invocation of the tool:
  the configuration file is written only after the template has been filled.
\<close>

theorem missing_placeholder_raises:
  assumes "k \<in> set (placeholders template)"
  shows "(params k = None \<longrightarrow> (\<exists>e. fill_in_template E template params = Inl e))
    \<and> (\<forall>ps1 f ps2 s. markup Text template = ps1 @ Fld f # ps2 \<and> is_keyword (arg_name f) \<and>
          params (arg_name f) = None \<and> render E params ps1 = Inr s \<longrightarrow>
          fill_in_template E template params = Inl (KeyError (arg_name f)))
    \<and> (k \<notin> set glm1_keys \<longrightarrow>
         (\<exists>e w'. session_GLM_run E workingDir template runDir w = Raised e w' \<and>
            (\<exists>evs. trace w' = trace w @ evs \<and> (\<forall>ev\<in>set evs. \<not> is_write ev \<and> \<not> is_tool_run ev))))"
proof (intro conjI impI allI)
  assume "params k = None"
  with assms show "\<exists>e. fill_in_template E template params = Inl e" by (rule fill_missing)
next
  fix ps1 f ps2 s
  assume "markup Text template = ps1 @ Fld f # ps2 \<and> is_keyword (arg_name f) \<and>
          params (arg_name f) = None \<and> render E params ps1 = Inr s"
  then show "fill_in_template E template params = Inl (KeyError (arg_name f))"
    by (simp add: fill_in_template_def render_first_missing)
next
  assume "k \<notin> set glm1_keys"
  then have "\<And>n. \<exists>e. fill_in_template E template (map_of (run_params workingDir runDir (last2 runDir) n)) = Inl e"
    using assms fill_missing run_params_missing by blast
  then show "\<exists>e w'. session_GLM_run E workingDir template runDir w = Raised e w' \<and>
            (\<exists>evs. trace w' = trace w @ evs \<and> (\<forall>ev\<in>set evs. \<not> is_write ev \<and> \<not> is_tool_run ev))"
    by (rule P8_no_template)
qed

theorem missing_placeholder_raises_witness:
  "placeholders (''set fmri(npts) {numVolumes}'' @ [nl] @ ''set fmri(tr) {TR_duration}'' @ [nl])
     = [''numVolumes'', ''TR_duration'']
   \<and> ''TR_duration'' \<notin> set glm1_keys
   \<and> fill_in_template (stub_env []) (''set fmri(npts) {numVolumes}'' @ [nl] @ ''set fmri(tr) {TR_duration}'' @ [nl])
        (map_of (run_params ''/w'' ''/w/run05'' ''05'' 120)) = Inl (KeyError ''TR_duration'')
   \<and> error_of (session_GLM_run (stub_env []) ''/w''
        (''set fmri(npts) {numVolumes}'' @ [nl] @ ''set fmri(tr) {TR_duration}'' @ [nl]) ''/w/run05'' demo_world)
       = Some (KeyError ''TR_duration'')
   \<and> new_events demo_world (session_GLM_run (stub_env []) ''/w''
        (''set fmri(npts) {numVolumes}'' @ [nl] @ ''set fmri(tr) {TR_duration}'' @ [nl]) ''/w/run05'' demo_world)
       = [ERun [''sh'', ''getNumVolume.sh'', ''/w/run05/05-preprocess.feat/denoised_data.nii.gz''] True 0]"
proof -
  have a: "placeholders (''set fmri(npts) {numVolumes}'' @ [nl] @ ''set fmri(tr) {TR_duration}'' @ [nl])
     = [''numVolumes'', ''TR_duration'']"
    by code_simp
  have b: "''TR_duration'' \<notin> set glm1_keys"
    by code_simp
  have c: "fill_in_template (stub_env []) (''set fmri(npts) {numVolumes}'' @ [nl] @ ''set fmri(tr) {TR_duration}'' @ [nl])
        (map_of (run_params ''/w'' ''/w/run05'' ''05'' 120)) = Inl (KeyError ''TR_duration'')"
    by code_simp
  have d: "error_of (session_GLM_run (stub_env []) ''/w''
        (''set fmri(npts) {numVolumes}'' @ [nl] @ ''set fmri(tr) {TR_duration}'' @ [nl]) ''/w/run05'' demo_world)
       = Some (KeyError ''TR_duration'')"
    by code_simp
  have e: "new_events demo_world (session_GLM_run (stub_env []) ''/w''
        (''set fmri(npts) {numVolumes}'' @ [nl] @ ''set fmri(tr) {TR_duration}'' @ [nl]) ''/w/run05'' demo_world)
       = [ERun [''sh'', ''getNumVolume.sh'', ''/w/run05/05-preprocess.feat/denoised_data.nii.gz''] True 0]"
    by code_simp
  have k: "''TR_duration'' \<in> set (placeholders (''set fmri(npts) {numVolumes}'' @ [nl] @ ''set fmri(tr) {TR_duration}'' @ [nl]))"
    using a by simp
  from a b c d e
    missing_placeholder_raises [OF k, of "map_of (run_params ''/w'' ''/w/run05'' ''05'' 120)" "stub_env []"
      "''/w''" "''/w/run05''" demo_world]
  show ?thesis by blast
qed

subsection \<open>The template file itself\<close>

lemma block_step_extends:
  "\<exists>evs. trace (world_of (block_step E workingDir template l w)) = trace w @ evs"
proof (cases "block_step E workingDir template l w")
  case (Raised e w')
  from P6_raised [OF Raised] show ?thesis unfolding Raised by auto
next
  case (Done u w')
  from P6_done_events [OF Done] show ?thesis unfolding Done by auto
qed

lemma block_loop_extends:
  "\<exists>evs. trace (world_of (block_loop E workingDir template ls w)) = trace w @ evs"
proof (induction ls arbitrary: w)
  case Nil
  then show ?case by simp
next
  case (Cons l ls)
  show ?case
  proof (cases "block_step E workingDir template l w")
    case (Raised e w')
    with block_step_extends [of E workingDir template l w] show ?thesis
      by (simp add: bind_def)
  next
    case (Done u w')
    from block_step_extends [of E workingDir template l w] Done
    obtain evs where a: "trace w' = trace w @ evs" by auto
    from Cons.IH [of w'] obtain evs' where
      "trace (world_of (block_loop E workingDir template ls w')) = trace w' @ evs'" by blast
    with a Done show ?thesis by (simp add: bind_def)
  qed
qed

lemma main_after_setup:
  assumes "template_setup E w = Done (workingDir, template) w1"
  shows "\<exists>evs. trace (world_of (batchFEAT_main E w)) = trace w1 @ evs"
proof (cases "read_file E (join workingDir ''to_process_main.txt'') w1")
  case (Raised e w')
  from read_file_Raised [OF Raised] have "w' = w1" by simp
  with assms Raised show ?thesis by (simp add: batchFEAT_main_def bind_def bind'_def)
next
  case (Done inputs w2)
  from read_file_Done [OF Done] have a: "trace w2 = trace w1 @ [ERead (join workingDir ''to_process_main.txt'')]"
    by simp
  from block_loop_extends [of E workingDir template "file_lines inputs" w2] obtain evs where
    "trace (world_of (block_loop E workingDir template (file_lines inputs) w2)) = trace w2 @ evs" by blast
  with a assms Done show ?thesis by (simp add: batchFEAT_main_def bind_def bind'_def)
qed

text \<open>
  C10. Before the P6 driver reads the manifest, it has read the batch template
  \<^verbatim>\<open>design_template_main.fsf\<close> of the working directory, replaced the value of its
  \<^verbatim>\<open>highres_files\<close> line by the path of the structural image, and written the result back
  to the same file: the template on disk is the rewritten one, and these are the first
  three effects of every batch that gets that far. Each run then copies that file.
\<close>

theorem template_rewritten_in_place:
  "\<forall>workingDir template w1. template_setup E w = Done (workingDir, template) w1 \<longrightarrow>
     workingDir = cwd w \<and> template = join (cwd w) ''design_template_main.fsf''
     \<and> (\<exists>old new PD_dir.
           files w (resolve w template) = Some old
           \<and> re_search_group (''PD_dir='' @ [dq])
                (the (files w (resolve w (join (cwd w) ''directories.ini'')))) = Some PD_dir
           \<and> re_sub key_highres True
                (quoted_repl (join (abspath E (cwd w) PD_dir) STRUCTURALFILENAME)) old = Inr new
           \<and> files w1 = (files w)(resolve w template \<mapsto> new)
           \<and> take 3 (new_events w (batchFEAT_main E w)) =
               [ERead (join (cwd w) ''directories.ini''), ERead template, EWrite template new])"
proof (intro allI impI)
  fix workingDir template w1
  assume s: "template_setup E w = Done (workingDir, template) w1"
  from main_after_setup [OF s] obtain evs where
    m: "trace (world_of (batchFEAT_main E w)) = trace w1 @ evs" by blast
  from template_setup_Done [OF s] m
  show "workingDir = cwd w \<and> template = join (cwd w) ''design_template_main.fsf''
     \<and> (\<exists>old new PD_dir.
           files w (resolve w template) = Some old
           \<and> re_search_group (''PD_dir='' @ [dq])
                (the (files w (resolve w (join (cwd w) ''directories.ini'')))) = Some PD_dir
           \<and> re_sub key_highres True
                (quoted_repl (join (abspath E (cwd w) PD_dir) STRUCTURALFILENAME)) old = Inr new
           \<and> files w1 = (files w)(resolve w template \<mapsto> new)
           \<and> take 3 (new_events w (batchFEAT_main E w)) =
               [ERead (join (cwd w) ''directories.ini''), ERead template, EWrite template new])"
    by (auto simp: new_events_def)
qed


theorem template_rewritten_in_place_witness:
  "error_of (template_setup (stub_env []) demo_world) = None
   \<and> files demo_world ''/w/design_template_main.fsf'' = Some demo_fsf
   \<and> files (world_of (template_setup (stub_env []) demo_world)) ''/w/design_template_main.fsf'' =
       Some (key_highres @ ''/data/PD/final_structural'' @ [dq, nl]
             @ key_feat_files @ ''in'' @ [dq, nl]
             @ key_outputdir @ ''out'' @ [dq, nl]
             @ key_st_file @ ''st'' @ [dq, nl]
             @ key_npts @ ''100'' @ [nl]
             @ key_tr @ ''1.0'' @ [nl])
   \<and> demo_fsf \<noteq> (key_highres @ ''/data/PD/final_structural'' @ [dq, nl]
             @ key_feat_files @ ''in'' @ [dq, nl]
             @ key_outputdir @ ''out'' @ [dq, nl]
             @ key_st_file @ ''st'' @ [dq, nl]
             @ key_npts @ ''100'' @ [nl]
             @ key_tr @ ''1.0'' @ [nl])
   \<and> take 3 (new_events demo_world (batchFEAT_main (stub_env []) demo_world)) =
       [ERead ''/w/directories.ini'', ERead ''/w/design_template_main.fsf'',
        EWrite ''/w/design_template_main.fsf''
          (key_highres @ ''/data/PD/final_structural'' @ [dq, nl]
             @ key_feat_files @ ''in'' @ [dq, nl]
             @ key_outputdir @ ''out'' @ [dq, nl]
             @ key_st_file @ ''st'' @ [dq, nl]
             @ key_npts @ ''100'' @ [nl]
             @ key_tr @ ''1.0'' @ [nl])]"
proof -
  have a: "error_of (template_setup (stub_env []) demo_world) = None"
    by code_simp
  have b: "files demo_world ''/w/design_template_main.fsf'' = Some demo_fsf"
    by code_simp
  have c: "files (world_of (template_setup (stub_env []) demo_world)) ''/w/design_template_main.fsf'' =
       Some (key_highres @ ''/data/PD/final_structural'' @ [dq, nl]
             @ key_feat_files @ ''in'' @ [dq, nl]
             @ key_outputdir @ ''out'' @ [dq, nl]
             @ key_st_file @ ''st'' @ [dq, nl]
             @ key_npts @ ''100'' @ [nl]
             @ key_tr @ ''1.0'' @ [nl])"
    by code_simp
  have d: "demo_fsf \<noteq> (key_highres @ ''/data/PD/final_structural'' @ [dq, nl]
             @ key_feat_files @ ''in'' @ [dq, nl]
             @ key_outputdir @ ''out'' @ [dq, nl]
             @ key_st_file @ ''st'' @ [dq, nl]
             @ key_npts @ ''100'' @ [nl]
             @ key_tr @ ''1.0'' @ [nl])"
    by code_simp
  have e: "take 3 (new_events demo_world (batchFEAT_main (stub_env []) demo_world)) =
       [ERead ''/w/directories.ini'', ERead ''/w/design_template_main.fsf'',
        EWrite ''/w/design_template_main.fsf''
          (key_highres @ ''/data/PD/final_structural'' @ [dq, nl]
             @ key_feat_files @ ''in'' @ [dq, nl]
             @ key_outputdir @ ''out'' @ [dq, nl]
             @ key_st_file @ ''st'' @ [dq, nl]
             @ key_npts @ ''100'' @ [nl]
             @ key_tr @ ''1.0'' @ [nl])]"
    by code_simp
  obtain workingDir template w1 where
    s: "template_setup (stub_env []) demo_world = Done (workingDir, template) w1"
    using a by (cases "template_setup (stub_env []) demo_world") auto
  from a b c d e template_rewritten_in_place [of "stub_env []" demo_world, rule_format, OF s]
  show ?thesis by blast
qed

end
